theory Spec2Isabelle
  imports Main
begin

section \<open>JavaScript values used by \<open>services/geminiService.ts\<close>\<close>

text \<open>
  A value of JavaScript type \<open>string | undefined | null\<close> is a \<open>string option\<close>:
  \<open>None\<close> stands for \<open>undefined\<close> and \<open>null\<close> alike (the module only tests such values
  for truthiness or passes them on). A thrown value is a \<open>js_error\<close>; a computation that
  may throw returns \<open>js_error + 'a\<close> with \<open>Inl\<close> the thrown value.
\<close>

datatype js_error = Error string | TypeError

definition truthy :: "string option \<Rightarrow> bool" where
  "truthy v = (case v of None \<Rightarrow> False | Some s \<Rightarrow> s \<noteq> [])"

text \<open>\<open>a || b\<close> on possibly missing strings, and on strings.\<close>

definition js_or :: "string option \<Rightarrow> string option \<Rightarrow> string option" where
  "js_or a b = (if truthy a then a else b)"

definition js_or_str :: "string \<Rightarrow> string \<Rightarrow> string" where
  "js_or_str a b = (if a \<noteq> [] then a else b)"

text \<open>\<open>s.split(sep)\<close> for a one-character separator, and \<open>xs[i]\<close> (\<open>undefined\<close> out of range).\<close>

fun js_split :: "char \<Rightarrow> string \<Rightarrow> string list" where
  "js_split sep [] = [[]]"
| "js_split sep (c # cs) =
     (if c = sep then [] # js_split sep cs
      else (case js_split sep cs of
              [] \<Rightarrow> [[c]]
            | p # ps \<Rightarrow> (c # p) # ps))"

definition js_index :: "'a list \<Rightarrow> nat \<Rightarrow> 'a option" where
  "js_index xs i = (if i < length xs then Some (xs ! i) else None)"

section \<open>Data model\<close>

text \<open>
  Modelled from the spec: the declarations of \<open>Author\<close>, \<open>Message\<close> and \<open>GroundingSource\<close>
  live in \<open>../types\<close>, which is not among the sources. The spec gives a conversation turn
  as \<open>{ author: USER | AI, content: text }\<close> and a grounding source as \<open>{ uri, title }\<close>.
  The fields of a grounding source are optional strings here because the module builds
  such objects from provider metadata before it filters them.
\<close>

datatype Author = USER | AI

record Message =
  author :: Author
  content :: string

record GroundingSource =
  uri :: "string option"
  title :: "string option"

text \<open>The provider's request and response shapes, as far as the module touches them.\<close>

datatype Part =
    TextPart string
  | InlineData "string option" string

record Content =
  role :: string
  parts :: "Part list"

datatype Tool = GoogleSearch

record ThinkingConfig =
  thinkingBudget :: nat

record GenerateContentConfig =
  systemInstruction :: string
  tools :: "Tool list option"
  thinkingConfig :: "ThinkingConfig option"

record ModelParameters =
  model :: string
  config :: GenerateContentConfig

record CreateChatParameters = ModelParameters +
  history :: "Content list"

record GenerateContentParameters = ModelParameters +
  contents :: "Content list"

record GroundingChunkWeb =
  web_uri :: "string option"
  web_title :: "string option"

record GroundingChunk =
  web :: "GroundingChunkWeb option"

record GroundingMetadata =
  groundingChunks :: "GroundingChunk list option"

record Candidate =
  groundingMetadata :: "GroundingMetadata option"

text \<open>One increment of a provider stream; \<open>chunk_text\<close> is what the getter \<open>chunk.text\<close> gives.\<close>

record GenerateContentResponse =
  chunk_text :: "string option"
  candidates :: "Candidate list option"

text \<open>
  An asynchronous provider stream, as \<open>for await\<close> sees it: it hands out a chunk and goes
  on, or ends, or throws.
\<close>

datatype 'c provider_stream =
    StreamEnd
  | StreamThrow js_error
  | StreamChunk 'c "'c provider_stream"

text \<open>The element type of both generators, and how a generator run finished.\<close>

record StreamElement =
  "text" :: "string option"
  sources :: "GroundingSource list"

datatype completion = Returned | Threw js_error

record generator_run =
  yielded :: "StreamElement list"
  completion :: completion

section \<open>The client accessor\<close>

record GoogleGenAI =
  apiKey :: "string option"

record Chat =
  chat_client :: GoogleGenAI
  chat_params :: CreateChatParameters

text \<open>
  The calls that reach the provider over the network, and the provider itself: for each
  call it either rejects (\<open>Inl\<close>) or opens a stream.
\<close>

datatype provider_request =
    SendMessageStream Chat string
  | GenerateContentStream GoogleGenAI GenerateContentParameters

type_synonym provider =
  "provider_request \<Rightarrow> js_error + GenerateContentResponse provider_stream"

text \<open>
  What the module reads and writes outside its arguments: the module variable \<open>ai\<close>,
  \<open>process.env.API_KEY\<close>, the browser's \<open>localStorage\<close>, the requests sent to the provider
  so far, and the lines written with \<open>console.error\<close>.
\<close>

record world =
  ai :: "GoogleGenAI option"
  env_API_KEY :: "string option"
  localStorage :: "string \<Rightarrow> string option"
  network :: "provider_request list"
  console :: "(string \<times> js_error) list"

definition api_key_not_found :: js_error where
  "api_key_not_found =
     Error ''API Key not found. Please ensure it is set in environment or localStorage.''"

definition getAIClient :: "world \<Rightarrow> (js_error + GoogleGenAI) \<times> world" where
  "getAIClient w =
     (case ai w of
        Some client \<Rightarrow> (Inr client, w)
      | None \<Rightarrow>
          (let apiKey = js_or (env_API_KEY w) (localStorage w ''GEMINI_API_KEY'')
           in if \<not> truthy apiKey then (Inl api_key_not_found, w)
              else (Inr \<lparr>apiKey = apiKey\<rparr>, w\<lparr>ai := Some \<lparr>apiKey = apiKey\<rparr>\<rparr>)))"

section \<open>The file adapter\<close>

text \<open>
  A \<open>File\<close> with its MIME type and with what \<open>FileReader.result\<close> holds when \<open>loadend\<close>
  fires: the data URL, or \<open>null\<close> after a failed read. On \<open>null\<close> the handler throws
  inside the event callback, so the promise is never settled: \<open>fileToGenerativePart\<close>
  gives \<open>None\<close> when its promise stays pending for ever.
\<close>

record File =
  type :: string
  reader_result :: "string option"

definition fileToGenerativePart :: "File \<Rightarrow> Part option" where
  "fileToGenerativePart file =
     (case reader_result file of
        None \<Rightarrow> None
      | Some dataURL \<Rightarrow> Some (InlineData (js_index (js_split CHR '','' dataURL) 1) (type file)))"

section \<open>The history adapter\<close>

definition shift :: "'a list \<Rightarrow> 'a list" where
  "shift xs = (case xs of [] \<Rightarrow> [] | x # rest \<Rightarrow> rest)"

definition toContent :: "Message \<Rightarrow> Content" where
  "toContent msg =
     \<lparr>role = (if author msg = USER then ''user'' else ''model''),
      parts = [TextPart (content msg)]\<rparr>"

definition buildGeminiHistory :: "Message list \<Rightarrow> Content list" where
  "buildGeminiHistory messages =
     (let copy = messages;
          shifted = (if length copy > 0 \<and> author (copy ! 0) = AI then shift copy else copy)
      in map toContent shifted)"

text \<open>
  The same function on a store of arrays, to see what it does to the caller's array. An
  address is an index into the store; \<open>[...messages]\<close> allocates a new array at the end of
  the store and \<open>history.shift()\<close> updates the array at the address it is called on. The
  array built by \<open>map\<close> is new and returned by value. A call whose argument is not the
  address of an array is not a call of the source and gives \<open>None\<close>.
\<close>

type_synonym store = "Message list list"

definition buildGeminiHistory_store :: "store \<Rightarrow> nat \<Rightarrow> (Content list \<times> store) option" where
  "buildGeminiHistory_store st messages =
     (if messages < length st then
        (let copy = length st;
             st1 = st @ [st ! messages];
             st2 = (if length (st1 ! copy) > 0 \<and> author ((st1 ! copy) ! 0) = AI
                    then st1[copy := shift (st1 ! copy)] else st1)
         in Some (map toContent (st2 ! copy), st2))
      else None)"

section \<open>The conversational flow\<close>

text \<open>\<open>chunk.candidates?.[0]?.groundingMetadata?.groundingChunks\<close>\<close>

definition chunk_groundingChunks :: "GenerateContentResponse \<Rightarrow> GroundingChunk list option" where
  "chunk_groundingChunks chunk =
     (case candidates chunk of
        None \<Rightarrow> None
      | Some cs \<Rightarrow>
          (case js_index cs 0 of
             None \<Rightarrow> None
           | Some c \<Rightarrow>
               (case groundingMetadata c of
                  None \<Rightarrow> None
                | Some gm \<Rightarrow> groundingChunks gm)))"

text \<open>
  The callback of \<open>map\<close>: reading \<open>chunk.web.uri\<close> throws a \<open>TypeError\<close> when the entry has
  no \<open>web\<close>. \<open>map_throwing\<close> is \<open>Array.prototype.map\<close> with a callback that may throw: the
  first throw ends the whole call.
\<close>

definition toSource :: "GroundingChunk \<Rightarrow> js_error + GroundingSource" where
  "toSource chunk =
     (case web chunk of
        None \<Rightarrow> Inl TypeError
      | Some w \<Rightarrow> Inr \<lparr>uri = web_uri w, title = web_title w\<rparr>)"

fun map_throwing :: "('a \<Rightarrow> js_error + 'b) \<Rightarrow> 'a list \<Rightarrow> js_error + 'b list" where
  "map_throwing f [] = Inr []"
| "map_throwing f (x # xs) =
     (case f x of
        Inl e \<Rightarrow> Inl e
      | Inr y \<Rightarrow> (case map_throwing f xs of Inl e \<Rightarrow> Inl e | Inr ys \<Rightarrow> Inr (y # ys)))"

definition has_uri_and_title :: "GroundingSource \<Rightarrow> bool" where
  "has_uri_and_title source = (truthy (uri source) \<and> truthy (title source))"

definition chunk_sources :: "GenerateContentResponse \<Rightarrow> js_error + GroundingSource list" where
  "chunk_sources chunk =
     (case chunk_groundingChunks chunk of
        None \<Rightarrow> Inr []
      | Some gcs \<Rightarrow>
          (case map_throwing toSource gcs of
             Inl e \<Rightarrow> Inl e
           | Inr mapped \<Rightarrow> Inr (filter has_uri_and_title mapped)))"

text \<open>
  The \<open>for await\<close> loop of the conversational flow: the elements it yields, and the error
  that ended it if one did (thrown by the stream or by the loop body).
\<close>

fun chat_for_await ::
  "GenerateContentResponse provider_stream \<Rightarrow> StreamElement list \<times> js_error option" where
  "chat_for_await StreamEnd = ([], None)"
| "chat_for_await (StreamThrow e) = ([], Some e)"
| "chat_for_await (StreamChunk chunk rest) =
     (case chunk_sources chunk of
        Inl e \<Rightarrow> ([], Some e)
      | Inr srcs \<Rightarrow>
          (case chat_for_await rest of
             (ys, r) \<Rightarrow> (\<lparr>text = chunk_text chunk, sources = srcs\<rparr> # ys, r)))"

text \<open>
  The \<open>try\<close> block. \<open>SYSTEM_PROMPT\<close> comes from \<open>../constants\<close>, which is not among the
  sources, and is a parameter. \<open>chats.create\<close> builds the chat object locally;
  \<open>sendMessageStream\<close> is the call that reaches the provider.
\<close>

definition chat_try ::
  "provider \<Rightarrow> string \<Rightarrow> Content list \<Rightarrow> string \<Rightarrow> world
     \<Rightarrow> StreamElement list \<times> js_error option \<times> world" where
  "chat_try provider SYSTEM_PROMPT geminiHistory newMessage w =
     (case getAIClient w of
        (Inl e, w1) \<Rightarrow> ([], Some e, w1)
      | (Inr aiClient, w1) \<Rightarrow>
          (let chat = \<lparr>chat_client = aiClient,
                       chat_params =
                         \<lparr>model = ''gemini-2.5-flash'',
                          config = \<lparr>systemInstruction = SYSTEM_PROMPT,
                                    tools = Some [GoogleSearch],
                                    thinkingConfig = None\<rparr>,
                          history = geminiHistory\<rparr>\<rparr>;
               request = SendMessageStream chat newMessage;
               w2 = w1\<lparr>network := network w1 @ [request]\<rparr>
           in case provider request of
                Inl e \<Rightarrow> ([], Some e, w2)
              | Inr stream \<Rightarrow> (case chat_for_await stream of (ys, r) \<Rightarrow> (ys, r, w2))))"

definition chat_placeholder :: StreamElement where
  "chat_placeholder =
     \<lparr>text = Some ''I'm sorry, I encountered an error. Please try again.'', sources = []\<rparr>"

text \<open>The generator: the \<open>try\<close> block, then the \<open>catch\<close> clause if the block threw.\<close>

definition getChatResponseStream ::
  "provider \<Rightarrow> string \<Rightarrow> Message list \<Rightarrow> string \<Rightarrow> world \<Rightarrow> generator_run \<times> world" where
  "getChatResponseStream provider SYSTEM_PROMPT messages newMessage w =
     (let geminiHistory = buildGeminiHistory messages
      in case chat_try provider SYSTEM_PROMPT geminiHistory newMessage w of
           (ys, None, w') \<Rightarrow> (\<lparr>yielded = ys, completion = Returned\<rparr>, w')
         | (ys, Some error, w') \<Rightarrow>
             (\<lparr>yielded = ys @ [chat_placeholder], completion = Returned\<rparr>,
              w'\<lparr>console := console w' @ [(''Error getting chat response:'', error)]\<rparr>))"

section \<open>The deep-dive flow\<close>

definition default_prompt :: string where
  "default_prompt = ''Please provide a summary of the attached document.''"

text \<open>
  \<open>userParts\<close> as it stands when the request is built; \<open>None\<close> when the flow is still
  waiting for the file adapter, which then never comes back.
\<close>

definition deepDiveUserParts :: "string \<Rightarrow> File option \<Rightarrow> Part list option" where
  "deepDiveUserParts newMessage file =
     (case (case file of
              None \<Rightarrow> Some []
            | Some f \<Rightarrow> (case fileToGenerativePart f of
                          None \<Rightarrow> None
                        | Some filePart \<Rightarrow> Some ([] @ [filePart])))
      of None \<Rightarrow> None
       | Some userParts \<Rightarrow> Some (userParts @ [TextPart (js_or_str newMessage default_prompt)]))"

text \<open>The request \<open>req\<close>, once \<open>userParts\<close> is complete.\<close>

definition deepDiveRequest ::
  "string \<Rightarrow> string \<Rightarrow> File option \<Rightarrow> GenerateContentParameters option" where
  "deepDiveRequest SYSTEM_PROMPT newMessage file =
     (case deepDiveUserParts newMessage file of
        None \<Rightarrow> None
      | Some userParts \<Rightarrow>
          Some \<lparr>model = ''gemini-2.5-pro'',
                config = \<lparr>systemInstruction = SYSTEM_PROMPT,
                          tools = None,
                          thinkingConfig = Some \<lparr>thinkingBudget = 32768\<rparr>\<rparr>,
                contents = [\<lparr>role = ''user'', parts = userParts\<rparr>]\<rparr>)"

fun deep_dive_for_await ::
  "GenerateContentResponse provider_stream \<Rightarrow> StreamElement list \<times> js_error option" where
  "deep_dive_for_await StreamEnd = ([], None)"
| "deep_dive_for_await (StreamThrow e) = ([], Some e)"
| "deep_dive_for_await (StreamChunk chunk rest) =
     (case deep_dive_for_await rest of
        (ys, r) \<Rightarrow> (\<lparr>text = chunk_text chunk, sources = []\<rparr> # ys, r))"

definition deep_dive_try ::
  "provider \<Rightarrow> GenerateContentParameters \<Rightarrow> world
     \<Rightarrow> StreamElement list \<times> js_error option \<times> world" where
  "deep_dive_try provider req w =
     (case getAIClient w of
        (Inl e, w1) \<Rightarrow> ([], Some e, w1)
      | (Inr aiClient, w1) \<Rightarrow>
          (let request = GenerateContentStream aiClient req;
               w2 = w1\<lparr>network := network w1 @ [request]\<rparr>
           in case provider request of
                Inl e \<Rightarrow> ([], Some e, w2)
              | Inr stream \<Rightarrow> (case deep_dive_for_await stream of (ys, r) \<Rightarrow> (ys, r, w2))))"

definition deep_dive_placeholder :: StreamElement where
  "deep_dive_placeholder =
     \<lparr>text = Some ''I'm sorry, I encountered an error during the deep dive analysis. Please try again.'',
      sources = []\<rparr>"

definition getDeepDiveResponseStream ::
  "provider \<Rightarrow> string \<Rightarrow> string \<Rightarrow> File option \<Rightarrow> world \<Rightarrow> (generator_run \<times> world) option" where
  "getDeepDiveResponseStream provider SYSTEM_PROMPT newMessage file w =
     (case deepDiveRequest SYSTEM_PROMPT newMessage file of
        None \<Rightarrow> None
      | Some req \<Rightarrow>
          (case deep_dive_try provider req w of
             (ys, None, w') \<Rightarrow> Some (\<lparr>yielded = ys, completion = Returned\<rparr>, w')
           | (ys, Some error, w') \<Rightarrow>
               Some (\<lparr>yielded = ys @ [deep_dive_placeholder], completion = Returned\<rparr>,
                     w'\<lparr>console := console w' @ [(''Error getting deep dive response:'', error)]\<rparr>)))"

section \<open>What a run yields for a chunk\<close>

text \<open>
  The element the conversational flow yields for a chunk whose citation metadata can be
  read, whether it can be read, and the element the deep-dive flow yields for a chunk.
\<close>

definition sources_readable :: "GenerateContentResponse \<Rightarrow> bool" where
  "sources_readable chunk = (case chunk_sources chunk of Inl e \<Rightarrow> False | Inr srcs \<Rightarrow> True)"

definition chat_element :: "GenerateContentResponse \<Rightarrow> StreamElement" where
  "chat_element chunk =
     \<lparr>text = chunk_text chunk,
      sources = (case chunk_sources chunk of Inl e \<Rightarrow> [] | Inr srcs \<Rightarrow> srcs)\<rparr>"

definition deep_dive_element :: "GenerateContentResponse \<Rightarrow> StreamElement" where
  "deep_dive_element chunk = \<lparr>text = chunk_text chunk, sources = []\<rparr>"

text \<open>
  Whether the deep-dive flow gets past the file adapter: there is no file, or the read
  of the file gave a result.
\<close>

definition read_completes :: "File option \<Rightarrow> bool" where
  "read_completes file = (case file of None \<Rightarrow> True | Some f \<Rightarrow> reader_result f \<noteq> None)"

text \<open>A stream that hands out the given chunks and then throws.\<close>

definition throws_after :: "'c list \<Rightarrow> js_error \<Rightarrow> 'c provider_stream" where
  "throws_after chunks e = foldr StreamChunk chunks (StreamThrow e)"

section \<open>Concrete inputs\<close>

definition greeting_then_question :: "Message list" where
  "greeting_then_question =
     [\<lparr>author = AI, content = ''Hello''\<rparr>, \<lparr>author = USER, content = ''Hi''\<rparr>]"

definition question_then_answer :: "Message list" where
  "question_then_answer =
     [\<lparr>author = USER, content = ''Hi''\<rparr>, \<lparr>author = AI, content = ''Hello''\<rparr>]"

definition cited_webs :: "GroundingChunkWeb list" where
  "cited_webs =
     [\<lparr>web_uri = Some ''https://a.example'', web_title = Some ''A''\<rparr>,
      \<lparr>web_uri = Some ''https://b.example'', web_title = Some []\<rparr>,
      \<lparr>web_uri = None, web_title = Some ''C''\<rparr>,
      \<lparr>web_uri = Some ''https://d.example'', web_title = Some ''D''\<rparr>]"

definition cited_chunk :: GenerateContentResponse where
  "cited_chunk =
     \<lparr>chunk_text = Some ''Hi'',
      candidates =
        Some [\<lparr>groundingMetadata =
                 Some \<lparr>groundingChunks = Some (map (\<lambda>w. \<lparr>web = Some w\<rparr>) cited_webs)\<rparr>\<rparr>]\<rparr>"

definition plain_chunk :: GenerateContentResponse where
  "plain_chunk = \<lparr>chunk_text = Some ''Hello'', candidates = None\<rparr>"

text \<open>A chunk whose second citation entry has no \<open>web\<close> object, and a provider that sends it.\<close>

definition webless_chunk :: GenerateContentResponse where
  "webless_chunk =
     \<lparr>chunk_text = Some ''Hi'',
      candidates =
        Some [\<lparr>groundingMetadata =
                 Some \<lparr>groundingChunks =
                         Some [\<lparr>web = Some \<lparr>web_uri = Some ''https://a.example'',
                                             web_title = Some ''A''\<rparr>\<rparr>,
                               \<lparr>web = None\<rparr>]\<rparr>\<rparr>]\<rparr>"

definition webless_provider :: provider where
  "webless_provider request = Inr (StreamChunk webless_chunk StreamEnd)"

definition no_credential_world :: world where
  "no_credential_world =
     \<lparr>ai = None, env_API_KEY = None, localStorage = (\<lambda>key. None), network = [], console = []\<rparr>"

definition stored_key_world :: world where
  "stored_key_world =
     \<lparr>ai = None, env_API_KEY = Some [],
      localStorage = (\<lambda>key. if key = ''GEMINI_API_KEY'' then Some ''secret'' else None),
      network = [], console = []\<rparr>"

definition connection_reset :: js_error where
  "connection_reset = Error ''connection reset''"

definition flaky_provider :: provider where
  "flaky_provider request = Inr (throws_after [plain_chunk, cited_chunk] connection_reset)"

definition dead_provider :: provider where
  "dead_provider request = Inr (StreamThrow connection_reset)"

definition report_pdf :: File where
  "report_pdf =
     \<lparr>type = ''application/pdf'',
      reader_result = Some ''data:application/pdf;base64,JVBERi0=''\<rparr>"

section \<open>Properties of the history adapter\<close>

lemma buildGeminiHistory_Nil: "buildGeminiHistory [] = []"
  by (simp add: buildGeminiHistory_def)

lemma buildGeminiHistory_AI:
  "author m = AI \<Longrightarrow> buildGeminiHistory (m # rest) = map toContent rest"
  by (simp add: buildGeminiHistory_def shift_def)

lemma buildGeminiHistory_USER:
  "author m = USER \<Longrightarrow> buildGeminiHistory (m # rest) = map toContent (m # rest)"
  by (simp add: buildGeminiHistory_def)

text \<open>
  C1, as stated, fails: a history that starts with two assistant turns loses only the
  first, so the adapted history starts with role \<open>model\<close>.
\<close>

theorem leading_AI_twice_counterexample:
  "author (hd [\<lparr>author = AI, content = ''Hello''\<rparr>, \<lparr>author = AI, content = ''How can I help?''\<rparr>]) = AI
   \<and> buildGeminiHistory
        [\<lparr>author = AI, content = ''Hello''\<rparr>, \<lparr>author = AI, content = ''How can I help?''\<rparr>]
      = [\<lparr>role = ''model'', parts = [TextPart ''How can I help?'']\<rparr>]"
  by (simp add: buildGeminiHistory_def shift_def toContent_def)

text \<open>
  C1, amended: for every history whose first turn is assistant-authored, the adapter
  removes exactly that turn and relabels the remaining turns in order. The result is
  empty if it was the only turn; otherwise the first element's role is \<open>user\<close> when the
  second turn is user-authored and \<open>model\<close> when it is not.
\<close>

theorem buildGeminiHistory_leading_AI:
  assumes "messages \<noteq> []" and "author (hd messages) = AI"
  shows "buildGeminiHistory messages = map toContent (tl messages) \<and>
         (case tl messages of
            [] \<Rightarrow> buildGeminiHistory messages = []
          | second # rest \<Rightarrow>
              role (hd (buildGeminiHistory messages))
                = (if author second = USER then ''user'' else ''model''))"
proof -
  from assms obtain m rest where ms: "messages = m # rest" and m: "author m = AI"
    by (cases messages) auto
  show ?thesis
    unfolding ms by (simp add: buildGeminiHistory_AI [OF m] toContent_def split: list.split)
qed

theorem buildGeminiHistory_leading_AI_witness:
  "greeting_then_question \<noteq> [] \<and> author (hd greeting_then_question) = AI \<and>
   buildGeminiHistory greeting_then_question = [\<lparr>role = ''user'', parts = [TextPart ''Hi'']\<rparr>] \<and>
   role (hd (buildGeminiHistory greeting_then_question)) = ''user''"
  using buildGeminiHistory_leading_AI [of greeting_then_question]
  by (simp add: greeting_then_question_def toContent_def)

text \<open>
  C2: for every history whose first turn is user-authored, the adapted history has the
  same length, and its i-th element has role \<open>user\<close> if the i-th turn is user-authored and
  \<open>model\<close> otherwise, with the turn's content as its single text part.
\<close>

theorem buildGeminiHistory_leading_USER:
  assumes "messages \<noteq> []" and "author (hd messages) = USER"
  shows "length (buildGeminiHistory messages) = length messages \<and>
         (\<forall>i<length messages.
            role (buildGeminiHistory messages ! i)
              = (if author (messages ! i) = USER then ''user'' else ''model'') \<and>
            parts (buildGeminiHistory messages ! i) = [TextPart (content (messages ! i))])"
proof -
  from assms obtain m rest where ms: "messages = m # rest" and m: "author m = USER"
    by (cases messages) auto
  have eq: "buildGeminiHistory (m # rest) = map toContent (m # rest)"
    using m by (rule buildGeminiHistory_USER)
  show ?thesis
    unfolding ms eq by (simp add: toContent_def nth_Cons split: nat.split)
qed

theorem buildGeminiHistory_leading_USER_witness:
  "question_then_answer \<noteq> [] \<and> author (hd question_then_answer) = USER \<and>
   length (buildGeminiHistory question_then_answer) = 2 \<and>
   (1::nat) < length question_then_answer \<and>
   role (buildGeminiHistory question_then_answer ! 1) = ''model'' \<and>
   parts (buildGeminiHistory question_then_answer ! 1) = [TextPart ''Hello'']"
  using buildGeminiHistory_leading_USER [of question_then_answer]
  by (simp add: question_then_answer_def)

section \<open>Properties of the conversational flow's citations\<close>

lemma map_throwing_toSource:
  "map_throwing toSource (map (\<lambda>w. \<lparr>web = Some w\<rparr>) ws)
     = Inr (map (\<lambda>w. \<lparr>uri = web_uri w, title = web_title w\<rparr>) ws)"
  by (induction ws) (simp_all add: toSource_def)

lemma filter_has_uri_and_title:
  "filter has_uri_and_title (map (\<lambda>w. \<lparr>uri = web_uri w, title = web_title w\<rparr>) ws)
     = map (\<lambda>w. \<lparr>uri = web_uri w, title = web_title w\<rparr>)
         (filter (\<lambda>w. web_uri w \<notin> {None, Some []} \<and> web_title w \<notin> {None, Some []}) ws)"
  by (induction ws) (auto simp: has_uri_and_title_def truthy_def split: option.splits)

lemma chunk_groundingChunks_fields:
  assumes "candidates chunk = Some (candidate # others)"
      and "groundingMetadata candidate = Some metadata"
  shows "chunk_groundingChunks chunk = groundingChunks metadata"
  using assms by (simp add: chunk_groundingChunks_def js_index_def)

lemma map_throwing_toSource_webless:
  "g \<in> set gcs \<Longrightarrow> web g = None \<Longrightarrow> map_throwing toSource gcs = Inl TypeError"
proof (induction gcs)
  case Nil
  then show ?case by simp
next
  case (Cons a gcs)
  show ?case
  proof (cases "web a")
    case None
    then have "toSource a = Inl TypeError"
      by (simp add: toSource_def)
    then show ?thesis by simp
  next
    case (Some w)
    then have a: "toSource a = Inr \<lparr>uri = web_uri w, title = web_title w\<rparr>"
      by (simp add: toSource_def)
    from Some Cons.prems have "g \<in> set gcs" by auto
    then have "map_throwing toSource gcs = Inl TypeError"
      using Cons.IH Cons.prems(2) by simp
    with a show ?thesis by simp
  qed
qed

lemma chat_for_await_webless:
  assumes "candidates chunk = Some (candidate # others)"
      and "groundingMetadata candidate = Some metadata"
      and "groundingChunks metadata = Some gcs"
      and "g \<in> set gcs" and "web g = None"
  shows "chat_for_await (StreamChunk chunk rest) = ([], Some TypeError)"
proof -
  have "chunk_groundingChunks chunk = Some gcs"
    using chunk_groundingChunks_fields [OF assms(1,2)] assms(3) by simp
  then have "chunk_sources chunk = Inl TypeError"
    by (simp add: chunk_sources_def map_throwing_toSource_webless [OF assms(4,5)])
  then show ?thesis by simp
qed

text \<open>
  C3, as stated, fails: the metadata list of \<open>webless_chunk\<close> has one entry with URI and
  title and one entry with neither (it has no \<open>web\<close> object). The claim asks for an element
  whose \<open>sources\<close> is the first entry alone; reading \<open>chunk.web.uri\<close> of the second entry
  throws instead, so the loop yields no element for the chunk and the flow ends with its
  placeholder.
\<close>

theorem webless_entry_counterexample:
  "chat_for_await (StreamChunk webless_chunk StreamEnd) = ([], Some TypeError) \<and>
   getChatResponseStream webless_provider ''Be kind.'' question_then_answer ''Summarise''
       stored_key_world =
     (\<lparr>yielded = [chat_placeholder], completion = Returned\<rparr>,
      stored_key_world
        \<lparr>ai := Some \<lparr>apiKey = Some ''secret''\<rparr>,
         network :=
           [SendMessageStream
              \<lparr>chat_client = \<lparr>apiKey = Some ''secret''\<rparr>,
               chat_params =
                 \<lparr>model = ''gemini-2.5-flash'',
                  config = \<lparr>systemInstruction = ''Be kind.'', tools = Some [GoogleSearch],
                            thinkingConfig = None\<rparr>,
                  history = buildGeminiHistory question_then_answer\<rparr>\<rparr>
              ''Summarise''],
         console := [(''Error getting chat response:'', TypeError)]\<rparr>)"
proof -
  have s: "chunk_sources webless_chunk = Inl TypeError"
    by (simp add: chunk_sources_def chunk_groundingChunks_def webless_chunk_def js_index_def
        toSource_def)
  have g: "getAIClient stored_key_world =
             (Inr \<lparr>apiKey = Some ''secret''\<rparr>,
              stored_key_world\<lparr>ai := Some \<lparr>apiKey = Some ''secret''\<rparr>\<rparr>)"
    by (simp add: getAIClient_def stored_key_world_def js_or_def truthy_def Let_def)
  have n: "network stored_key_world = []" "console stored_key_world = []"
    by (simp_all add: stored_key_world_def)
  show ?thesis
    by (simp add: s getChatResponseStream_def chat_try_def g webless_provider_def Let_def n)
qed

text \<open>
  C3, amended: for every chunk of the conversational stream whose citation metadata
  entries each carry a \<open>web\<close> object, with or without a URI and a title in it, the element
  yielded for that chunk carries the chunk's text and, as \<open>sources\<close>, exactly the entries
  whose URI and title are both present and non-empty, in the original order of the
  metadata list; the loop then goes on with the rest of the stream. The metadata list is
  the one the source reads: \<open>groundingChunks\<close> of the \<open>groundingMetadata\<close> of the chunk's first
  candidate.
\<close>

theorem chat_sources_filtered:
  assumes "candidates chunk = Some (candidate # others)"
      and "groundingMetadata candidate = Some metadata"
      and "groundingChunks metadata = Some (map (\<lambda>w. \<lparr>web = Some w\<rparr>) ws)"
  shows "chat_for_await (StreamChunk chunk rest) =
           (\<lparr>text = chunk_text chunk,
             sources = map (\<lambda>w. \<lparr>uri = web_uri w, title = web_title w\<rparr>)
                         (filter (\<lambda>w. web_uri w \<notin> {None, Some []} \<and>
                                       web_title w \<notin> {None, Some []}) ws)\<rparr>
              # fst (chat_for_await rest),
            snd (chat_for_await rest))"
proof -
  have g: "chunk_groundingChunks chunk = Some (map (\<lambda>w. \<lparr>web = Some w\<rparr>) ws)"
    using chunk_groundingChunks_fields [OF assms(1,2)] assms(3) by simp
  have "chunk_sources chunk =
          Inr (map (\<lambda>w. \<lparr>uri = web_uri w, title = web_title w\<rparr>)
                 (filter (\<lambda>w. web_uri w \<notin> {None, Some []} \<and>
                               web_title w \<notin> {None, Some []}) ws))"
    by (simp add: chunk_sources_def g map_throwing_toSource filter_has_uri_and_title)
  then show ?thesis
    by (simp add: case_prod_beta)
qed

theorem chat_sources_filtered_witness:
  "candidates cited_chunk =
     Some [\<lparr>groundingMetadata =
              Some \<lparr>groundingChunks = Some (map (\<lambda>w. \<lparr>web = Some w\<rparr>) cited_webs)\<rparr>\<rparr>] \<and>
   chat_for_await (StreamChunk cited_chunk StreamEnd) =
     ([\<lparr>text = Some ''Hi'',
        sources = [\<lparr>uri = Some ''https://a.example'', title = Some ''A''\<rparr>,
                   \<lparr>uri = Some ''https://d.example'', title = Some ''D''\<rparr>]\<rparr>], None)"
proof -
  have c: "candidates cited_chunk =
     Some [\<lparr>groundingMetadata =
              Some \<lparr>groundingChunks = Some (map (\<lambda>w. \<lparr>web = Some w\<rparr>) cited_webs)\<rparr>\<rparr>]"
    by (simp add: cited_chunk_def)
  have t: "chunk_text cited_chunk = Some ''Hi''"
    by (simp add: cited_chunk_def)
  show ?thesis
    using chat_sources_filtered [OF c, of "\<lparr>groundingChunks = Some (map (\<lambda>w. \<lparr>web = Some w\<rparr>) cited_webs)\<rparr>" cited_webs StreamEnd] c
    by (simp add: t cited_webs_def)
qed

section \<open>Properties of the client accessor\<close>

lemma getAIClient_no_credential:
  assumes "ai w = None" and "\<not> truthy (env_API_KEY w)"
      and "\<not> truthy (localStorage w ''GEMINI_API_KEY'')"
  shows "getAIClient w = (Inl api_key_not_found, w)"
  using assms by (simp add: getAIClient_def js_or_def)

lemma getAIClient_cached:
  "ai w = Some client \<Longrightarrow> getAIClient w = (Inr client, w)"
  by (simp add: getAIClient_def)

lemma getAIClient_first:
  assumes "ai w = None"
      and "truthy (env_API_KEY w) \<or> truthy (localStorage w ''GEMINI_API_KEY'')"
  shows "getAIClient w =
           (Inr \<lparr>apiKey = js_or (env_API_KEY w) (localStorage w ''GEMINI_API_KEY'')\<rparr>,
            w\<lparr>ai := Some \<lparr>apiKey = js_or (env_API_KEY w) (localStorage w ''GEMINI_API_KEY'')\<rparr>\<rparr>)"
  using assms by (auto simp: getAIClient_def js_or_def Let_def)

lemma getAIClient_Inr:
  "fst (getAIClient w) = Inr client \<Longrightarrow> \<exists>w1. getAIClient w = (Inr client, w1)"
  by (cases "getAIClient w") simp

lemma getAIClient_network: "network (snd (getAIClient w)) = network w"
  by (simp add: getAIClient_def Let_def split: option.splits)

lemma stored_key_client:
  "fst (getAIClient stored_key_world) = Inr \<lparr>apiKey = Some ''secret''\<rparr>"
  by (simp add: getAIClient_def stored_key_world_def js_or_def truthy_def Let_def)

lemma chat_try_no_credential:
  "getAIClient w = (Inl e, w') \<Longrightarrow> chat_try provider sp h msg w = ([], Some e, w')"
  by (simp add: chat_try_def)

lemma deep_dive_try_no_credential:
  "getAIClient w = (Inl e, w') \<Longrightarrow> deep_dive_try provider req w = ([], Some e, w')"
  by (simp add: deep_dive_try_def)

text \<open>
  C4: on a first call (no client cached), if neither \<open>process.env.API_KEY\<close> nor the
  \<open>localStorage\<close> entry \<open>GEMINI_API_KEY\<close> yields a credential, \<open>getAIClient\<close> throws the error
  "API Key not found. ..." and leaves everything as it was; inside both flows the \<open>try\<close>
  block then ends with that error before any request has been sent to the provider. If
  one of the two sources yields a credential, the first call returns a client and caches
  it, and any later call that finds this client cached returns the same client and
  changes nothing, whatever the credential sources hold by then.
\<close>

theorem getAIClient_contract:
  "(ai w = None \<and> \<not> truthy (env_API_KEY w) \<and> \<not> truthy (localStorage w ''GEMINI_API_KEY'') \<longrightarrow>
      getAIClient w =
        (Inl (Error ''API Key not found. Please ensure it is set in environment or localStorage.''), w) \<and>
      chat_try provider SYSTEM_PROMPT geminiHistory newMessage w = ([], Some api_key_not_found, w) \<and>
      deep_dive_try provider req w = ([], Some api_key_not_found, w)) \<and>
   (ai w = None \<and> (truthy (env_API_KEY w) \<or> truthy (localStorage w ''GEMINI_API_KEY'')) \<longrightarrow>
      (\<exists>client. fst (getAIClient w) = Inr client \<and>
                ai (snd (getAIClient w)) = Some client \<and>
                (\<forall>w'. ai w' = Some client \<longrightarrow> getAIClient w' = (Inr client, w'))))"
proof (intro conjI impI)
  assume a: "ai w = None \<and> \<not> truthy (env_API_KEY w) \<and> \<not> truthy (localStorage w ''GEMINI_API_KEY'')"
  then have g: "getAIClient w = (Inl api_key_not_found, w)"
    by (simp add: getAIClient_no_credential)
  then show "getAIClient w =
        (Inl (Error ''API Key not found. Please ensure it is set in environment or localStorage.''), w)"
    by (simp add: api_key_not_found_def)
  show "chat_try provider SYSTEM_PROMPT geminiHistory newMessage w = ([], Some api_key_not_found, w)"
    using g by (rule chat_try_no_credential)
  show "deep_dive_try provider req w = ([], Some api_key_not_found, w)"
    using g by (rule deep_dive_try_no_credential)
next
  assume a: "ai w = None \<and> (truthy (env_API_KEY w) \<or> truthy (localStorage w ''GEMINI_API_KEY''))"
  then have "getAIClient w =
           (Inr \<lparr>apiKey = js_or (env_API_KEY w) (localStorage w ''GEMINI_API_KEY'')\<rparr>,
            w\<lparr>ai := Some \<lparr>apiKey = js_or (env_API_KEY w) (localStorage w ''GEMINI_API_KEY'')\<rparr>\<rparr>)"
    by (simp add: getAIClient_first)
  then show "\<exists>client. fst (getAIClient w) = Inr client \<and>
                ai (snd (getAIClient w)) = Some client \<and>
                (\<forall>w'. ai w' = Some client \<longrightarrow> getAIClient w' = (Inr client, w'))"
    by (simp add: getAIClient_cached)
qed

theorem getAIClient_contract_witness:
  "ai no_credential_world = None \<and> \<not> truthy (env_API_KEY no_credential_world) \<and>
   \<not> truthy (localStorage no_credential_world ''GEMINI_API_KEY'') \<and>
   getAIClient no_credential_world =
     (Inl (Error ''API Key not found. Please ensure it is set in environment or localStorage.''),
      no_credential_world) \<and>
   ai stored_key_world = None \<and> truthy (localStorage stored_key_world ''GEMINI_API_KEY'') \<and>
   fst (getAIClient stored_key_world) = Inr \<lparr>apiKey = Some ''secret''\<rparr> \<and>
   getAIClient (snd (getAIClient stored_key_world)\<lparr>localStorage := (\<lambda>key. None)\<rparr>)
     = (Inr \<lparr>apiKey = Some ''secret''\<rparr>,
        snd (getAIClient stored_key_world)\<lparr>localStorage := (\<lambda>key. None)\<rparr>)"
proof -
  have n: "ai no_credential_world = None \<and> \<not> truthy (env_API_KEY no_credential_world) \<and>
           \<not> truthy (localStorage no_credential_world ''GEMINI_API_KEY'')"
    by (simp add: no_credential_world_def truthy_def)
  have s: "ai stored_key_world = None \<and>
           (truthy (env_API_KEY stored_key_world) \<or>
            truthy (localStorage stored_key_world ''GEMINI_API_KEY''))"
    by (simp add: stored_key_world_def truthy_def)
  have s': "truthy (localStorage stored_key_world ''GEMINI_API_KEY'')"
    by (simp add: stored_key_world_def truthy_def)
  from getAIClient_contract [of no_credential_world] n
  have 1: "getAIClient no_credential_world =
     (Inl (Error ''API Key not found. Please ensure it is set in environment or localStorage.''),
      no_credential_world)"
    by blast
  from getAIClient_contract [of stored_key_world] s
  obtain client where c: "fst (getAIClient stored_key_world) = Inr client"
    "ai (snd (getAIClient stored_key_world)) = Some client"
    "\<forall>w'. ai w' = Some client \<longrightarrow> getAIClient w' = (Inr client, w')"
    by blast
  from c(1) have ce: "client = \<lparr>apiKey = Some ''secret''\<rparr>"
    by (simp add: stored_key_client)
  have "ai (snd (getAIClient stored_key_world)\<lparr>localStorage := (\<lambda>key. None)\<rparr>) = Some client"
    using c(2) by simp
  with c(3) have 2:
    "getAIClient (snd (getAIClient stored_key_world)\<lparr>localStorage := (\<lambda>key. None)\<rparr>)
       = (Inr client, snd (getAIClient stored_key_world)\<lparr>localStorage := (\<lambda>key. None)\<rparr>)"
    by blast
  show ?thesis using n s s' 1 2 ce stored_key_client by simp
qed

section \<open>Properties of the two flows\<close>

lemma chat_for_await_throws_after:
  "\<exists>err. chat_for_await (throws_after chunks e)
          = (map chat_element (takeWhile sources_readable chunks), Some err)"
proof (induction chunks)
  case Nil
  then show ?case by (simp add: throws_after_def)
next
  case (Cons c cs)
  then obtain err where ih:
    "chat_for_await (throws_after cs e)
       = (map chat_element (takeWhile sources_readable cs), Some err)"
    by blast
  have unf: "throws_after (c # cs) e = StreamChunk c (throws_after cs e)"
    by (simp add: throws_after_def)
  show ?case
  proof (cases "chunk_sources c")
    case (Inl a)
    then have "\<not> sources_readable c"
      by (simp add: sources_readable_def)
    with Inl show ?thesis by (simp add: unf)
  next
    case (Inr b)
    then have "sources_readable c" and "chat_element c = \<lparr>text = chunk_text c, sources = b\<rparr>"
      by (simp_all add: sources_readable_def chat_element_def)
    with Inr show ?thesis by (simp add: unf ih)
  qed
qed

lemma deep_dive_for_await_throws_after:
  "deep_dive_for_await (throws_after chunks e) = (map deep_dive_element chunks, Some e)"
  by (induction chunks) (simp_all add: throws_after_def deep_dive_element_def)

lemma deep_dive_for_await_sources:
  "e \<in> set (fst (deep_dive_for_await stream)) \<Longrightarrow> sources e = []"
  by (induction stream arbitrary: e) (auto simp: case_prod_beta)

lemma chat_try_stream:
  assumes "getAIClient w = (Inr client, w1)"
      and "\<forall>request. provider request = Inr stream"
  shows "\<exists>w2. chat_try provider sp h msg w
           = (fst (chat_for_await stream), snd (chat_for_await stream), w2)"
  using assms by (simp add: chat_try_def Let_def case_prod_beta)

lemma deep_dive_try_stream:
  assumes "getAIClient w = (Inr client, w1)"
      and "\<forall>request. provider request = Inr stream"
  shows "\<exists>w2. deep_dive_try provider req w
           = (fst (deep_dive_for_await stream), snd (deep_dive_for_await stream), w2)"
  using assms by (simp add: deep_dive_try_def Let_def case_prod_beta)

lemma read_completes_request:
  "read_completes file \<Longrightarrow> \<exists>req. deepDiveRequest sp msg file = Some req"
  by (auto simp: read_completes_def deepDiveRequest_def deepDiveUserParts_def
        fileToGenerativePart_def split: option.splits)

lemma chat_run_throws_after:
  assumes "fst (getAIClient w) = Inr client"
      and "\<forall>request. provider request = Inr (throws_after chunks e)"
  shows "fst (getChatResponseStream provider sp ms msg w) =
           \<lparr>yielded = map chat_element (takeWhile sources_readable chunks) @ [chat_placeholder],
            completion = Returned\<rparr>"
proof -
  from assms(1) obtain w1 where g: "getAIClient w = (Inr client, w1)"
    using getAIClient_Inr by blast
  obtain err where l: "chat_for_await (throws_after chunks e)
          = (map chat_element (takeWhile sources_readable chunks), Some err)"
    using chat_for_await_throws_after by blast
  from chat_try_stream [OF g assms(2)] l
  obtain w2 where "chat_try provider sp (buildGeminiHistory ms) msg w
      = (map chat_element (takeWhile sources_readable chunks), Some err, w2)"
    by (metis fst_conv snd_conv)
  then show ?thesis
    by (simp add: getChatResponseStream_def)
qed

lemma deep_dive_run_throws_after:
  assumes "fst (getAIClient w) = Inr client"
      and "\<forall>request. provider request = Inr (throws_after chunks e)"
      and "read_completes file"
  shows "map_option fst (getDeepDiveResponseStream provider sp msg file w) =
           Some \<lparr>yielded = map deep_dive_element chunks @ [deep_dive_placeholder],
                 completion = Returned\<rparr>"
proof -
  from assms(1) obtain w1 where g: "getAIClient w = (Inr client, w1)"
    using getAIClient_Inr by blast
  from assms(3) obtain req where r: "deepDiveRequest sp msg file = Some req"
    using read_completes_request by blast
  from deep_dive_try_stream [OF g assms(2)]
  obtain w2 where "deep_dive_try provider req w
      = (map deep_dive_element chunks, Some e, w2)"
    by (metis deep_dive_for_await_throws_after fst_conv snd_conv)
  then show ?thesis
    by (simp add: getDeepDiveResponseStream_def r)
qed

text \<open>The deep-dive flow sends exactly the request it built, once a client is there.\<close>

lemma deep_dive_request_sent:
  assumes "getAIClient w = (Inr client, w1)"
      and "deepDiveRequest sp msg file = Some req"
      and "getDeepDiveResponseStream provider sp msg file w = Some (run, w')"
  shows "network w' = network w @ [GenerateContentStream client req]"
proof -
  have "network w1 = network w"
    using getAIClient_network [of w] assms(1) by simp
  with assms show ?thesis
    by (auto simp: getDeepDiveResponseStream_def deep_dive_try_def Let_def
        split: sum.splits prod.splits option.splits)
qed

lemma chunk_sources_plain: "chunk_sources plain_chunk = Inr []"
  by (simp add: chunk_sources_def chunk_groundingChunks_def plain_chunk_def)

lemma chunk_sources_cited:
  "chunk_sources cited_chunk =
     Inr [\<lparr>uri = Some ''https://a.example'', title = Some ''A''\<rparr>,
          \<lparr>uri = Some ''https://d.example'', title = Some ''D''\<rparr>]"
  by (simp add: chunk_sources_def chunk_groundingChunks_def cited_chunk_def js_index_def
      cited_webs_def toSource_def has_uri_and_title_def truthy_def)

text \<open>
  C5: let a client be available and let the provider open a stream that hands out the
  chunks \<open>chunks\<close> and then throws. The conversational flow yields the elements of the
  chunks up to the failure (the stream's throw, or earlier a chunk whose citation
  metadata cannot be read), then exactly one placeholder element with the flow's apology
  and no sources, and returns normally. The deep-dive flow (once the file, if any, has been
  read) yields the elements of all the chunks, then its own placeholder, and returns
  normally. With no chunks before the throw each flow yields the placeholder alone.
\<close>

theorem stream_failure_placeholder:
  assumes "fst (getAIClient w) = Inr client"
      and "\<forall>request. provider request = Inr (throws_after chunks e)"
      and "read_completes file"
  shows "fst (getChatResponseStream provider SYSTEM_PROMPT messages newMessage w) =
           \<lparr>yielded = map chat_element (takeWhile sources_readable chunks) @ [chat_placeholder],
            completion = Returned\<rparr> \<and>
         map_option fst (getDeepDiveResponseStream provider SYSTEM_PROMPT newMessage file w) =
           Some \<lparr>yielded = map deep_dive_element chunks @ [deep_dive_placeholder],
                 completion = Returned\<rparr> \<and>
         chat_placeholder =
           \<lparr>text = Some ''I'm sorry, I encountered an error. Please try again.'', sources = []\<rparr> \<and>
         deep_dive_placeholder =
           \<lparr>text = Some ''I'm sorry, I encountered an error during the deep dive analysis. Please try again.'',
            sources = []\<rparr>"
  using chat_run_throws_after [OF assms(1,2)] deep_dive_run_throws_after [OF assms]
  by (simp add: chat_placeholder_def deep_dive_placeholder_def)

theorem stream_failure_placeholder_witness:
  "fst (getAIClient stored_key_world) = Inr \<lparr>apiKey = Some ''secret''\<rparr> \<and>
   read_completes (Some report_pdf) \<and>
   fst (getChatResponseStream flaky_provider ''Be kind.'' question_then_answer ''Summarise''
          stored_key_world) =
     \<lparr>yielded =
        [\<lparr>text = Some ''Hello'', sources = []\<rparr>,
         \<lparr>text = Some ''Hi'',
          sources = [\<lparr>uri = Some ''https://a.example'', title = Some ''A''\<rparr>,
                     \<lparr>uri = Some ''https://d.example'', title = Some ''D''\<rparr>]\<rparr>,
         chat_placeholder],
      completion = Returned\<rparr> \<and>
   map_option fst (getDeepDiveResponseStream flaky_provider ''Be kind.'' ''Summarise''
                     (Some report_pdf) stored_key_world) =
     Some \<lparr>yielded = [\<lparr>text = Some ''Hello'', sources = []\<rparr>, \<lparr>text = Some ''Hi'', sources = []\<rparr>,
                      deep_dive_placeholder],
           completion = Returned\<rparr> \<and>
   fst (getChatResponseStream dead_provider ''Be kind.'' question_then_answer ''Summarise''
          stored_key_world) =
     \<lparr>yielded = [chat_placeholder], completion = Returned\<rparr> \<and>
   map_option fst (getDeepDiveResponseStream dead_provider ''Be kind.'' ''Summarise''
                     (Some report_pdf) stored_key_world) =
     Some \<lparr>yielded = [deep_dive_placeholder], completion = Returned\<rparr>"
proof -
  have f: "\<forall>request. flaky_provider request
             = Inr (throws_after [plain_chunk, cited_chunk] connection_reset)"
    by (simp add: flaky_provider_def)
  have d: "\<forall>request. dead_provider request = Inr (throws_after [] connection_reset)"
    by (simp add: dead_provider_def throws_after_def)
  have r: "read_completes (Some report_pdf)"
    by (simp add: read_completes_def report_pdf_def)
  have t: "chunk_text plain_chunk = Some ''Hello''" "chunk_text cited_chunk = Some ''Hi''"
    by (simp_all add: plain_chunk_def cited_chunk_def)
  show ?thesis
    using stream_failure_placeholder
            [OF stored_key_client f r, of "''Be kind.''" question_then_answer "''Summarise''"]
          stream_failure_placeholder
            [OF stored_key_client d r, of "''Be kind.''" question_then_answer "''Summarise''"]
          stored_key_client r
    by (simp add: sources_readable_def chat_element_def deep_dive_element_def
        chunk_sources_plain chunk_sources_cited t del: map_option_eq_Some)
qed

text \<open>
  C6, as stated, fails: with no credential anywhere, both flows catch the configuration
  error, yield their placeholder and return normally.
\<close>

theorem missing_credential_counterexample:
  "getChatResponseStream dead_provider ''Be kind.'' [] ''Hello'' no_credential_world =
     (\<lparr>yielded = [chat_placeholder], completion = Returned\<rparr>,
      no_credential_world\<lparr>console := [(''Error getting chat response:'', api_key_not_found)]\<rparr>)
   \<and> getDeepDiveResponseStream dead_provider ''Be kind.'' ''Hello'' None no_credential_world =
     Some (\<lparr>yielded = [deep_dive_placeholder], completion = Returned\<rparr>,
           no_credential_world
             \<lparr>console := [(''Error getting deep dive response:'', api_key_not_found)]\<rparr>)"
  by (simp add: getChatResponseStream_def chat_try_def getAIClient_def no_credential_world_def
      js_or_def truthy_def getDeepDiveResponseStream_def deepDiveRequest_def deepDiveUserParts_def
      deep_dive_try_def)

text \<open>
  C6, amended: a configuration error (missing credential) raised on first client access
  is caught by the streaming flows. When \<open>getChatResponseStream\<close> or
  \<open>getDeepDiveResponseStream\<close> (once the file, if any, has been read) is invoked with no
  client cached and no credential resolvable, the flow writes the error to the console,
  yields exactly one element, its placeholder, and returns normally; nothing is sent to
  the provider.
\<close>

theorem missing_credential_swallowed:
  assumes "ai w = None" and "\<not> truthy (env_API_KEY w)"
      and "\<not> truthy (localStorage w ''GEMINI_API_KEY'')"
      and "read_completes file"
  shows "getChatResponseStream provider SYSTEM_PROMPT messages newMessage w =
           (\<lparr>yielded = [chat_placeholder], completion = Returned\<rparr>,
            w\<lparr>console := console w @ [(''Error getting chat response:'', api_key_not_found)]\<rparr>) \<and>
         getDeepDiveResponseStream provider SYSTEM_PROMPT newMessage file w =
           Some (\<lparr>yielded = [deep_dive_placeholder], completion = Returned\<rparr>,
                 w\<lparr>console :=
                     console w @ [(''Error getting deep dive response:'', api_key_not_found)]\<rparr>)"
proof -
  have g: "getAIClient w = (Inl api_key_not_found, w)"
    using assms(1-3) by (rule getAIClient_no_credential)
  from assms(4) obtain req where r: "deepDiveRequest SYSTEM_PROMPT newMessage file = Some req"
    using read_completes_request by blast
  have 1: "chat_try provider SYSTEM_PROMPT (buildGeminiHistory messages) newMessage w
             = ([], Some api_key_not_found, w)"
    using g by (rule chat_try_no_credential)
  have 2: "deep_dive_try provider req w = ([], Some api_key_not_found, w)"
    using g by (rule deep_dive_try_no_credential)
  show ?thesis
    by (simp add: getChatResponseStream_def getDeepDiveResponseStream_def r 1 2)
qed

theorem missing_credential_swallowed_witness:
  "ai no_credential_world = None \<and> \<not> truthy (env_API_KEY no_credential_world) \<and>
   \<not> truthy (localStorage no_credential_world ''GEMINI_API_KEY'') \<and>
   read_completes (Some report_pdf) \<and>
   fst (getChatResponseStream flaky_provider ''Be kind.'' question_then_answer ''Summarise''
          no_credential_world) =
     \<lparr>yielded = [chat_placeholder], completion = Returned\<rparr> \<and>
   map_option fst (getDeepDiveResponseStream flaky_provider ''Be kind.'' ''Summarise''
                     (Some report_pdf) no_credential_world) =
     Some \<lparr>yielded = [deep_dive_placeholder], completion = Returned\<rparr>"
proof -
  have n: "ai no_credential_world = None" "\<not> truthy (env_API_KEY no_credential_world)"
    "\<not> truthy (localStorage no_credential_world ''GEMINI_API_KEY'')"
    by (simp_all add: no_credential_world_def truthy_def)
  have r: "read_completes (Some report_pdf)"
    by (simp add: read_completes_def report_pdf_def)
  show ?thesis
    using missing_credential_swallowed
            [OF n r, of flaky_provider "''Be kind.''" question_then_answer "''Summarise''"] n r
    by simp
qed

text \<open>
  C7: for every call of the deep-dive flow with a file attached whose read gave the data
  URL \<open>dataURL\<close>, the request has a single user turn whose parts are the encoded file
  payload (the part of \<open>dataURL\<close> after the first comma, with the file's MIME type) followed
  by one text part: the fixed default prompt if the message is empty, the message itself
  otherwise.
\<close>

theorem deep_dive_file_parts:
  assumes "reader_result file = Some dataURL"
  shows "map_option contents (deepDiveRequest SYSTEM_PROMPT newMessage (Some file)) =
           Some [\<lparr>role = ''user'',
                  parts = [InlineData (js_index (js_split CHR '','' dataURL) 1) (type file),
                           TextPart (if newMessage = [] then default_prompt else newMessage)]\<rparr>]"
  using assms
  by (simp add: deepDiveRequest_def deepDiveUserParts_def fileToGenerativePart_def js_or_str_def)

theorem deep_dive_file_parts_witness:
  "reader_result report_pdf = Some ''data:application/pdf;base64,JVBERi0='' \<and>
   map_option contents (deepDiveRequest ''Be kind.'' [] (Some report_pdf)) =
     Some [\<lparr>role = ''user'',
            parts = [InlineData (Some ''JVBERi0='') ''application/pdf'',
                     TextPart ''Please provide a summary of the attached document.'']\<rparr>] \<and>
   map_option contents (deepDiveRequest ''Be kind.'' ''What changed?'' (Some report_pdf)) =
     Some [\<lparr>role = ''user'',
            parts = [InlineData (Some ''JVBERi0='') ''application/pdf'',
                     TextPart ''What changed?'']\<rparr>]"
proof -
  have h: "reader_result report_pdf = Some ''data:application/pdf;base64,JVBERi0=''"
    by (simp add: report_pdf_def)
  have t: "type report_pdf = ''application/pdf''"
    by (simp add: report_pdf_def)
  show ?thesis
    using deep_dive_file_parts [OF h, of "''Be kind.''" "[]"]
          deep_dive_file_parts [OF h, of "''Be kind.''" "''What changed?''"] h
    by (simp add: t js_index_def default_prompt_def del: map_option_eq_Some)
qed

text \<open>
  C8: every element of every run of the deep-dive flow, a real chunk's or the
  placeholder, has an empty \<open>sources\<close> list.
\<close>

theorem deep_dive_no_sources:
  assumes "getDeepDiveResponseStream provider SYSTEM_PROMPT newMessage file w = Some (run, w')"
  shows "\<forall>e \<in> set (yielded run). sources e = []"
proof -
  from assms obtain req where r: "deepDiveRequest SYSTEM_PROMPT newMessage file = Some req"
    by (auto simp: getDeepDiveResponseStream_def split: option.splits)
  have t: "\<forall>e \<in> set (fst (deep_dive_try provider req w)). sources e = []"
    by (auto simp: deep_dive_try_def Let_def case_prod_beta deep_dive_for_await_sources
        split: prod.splits sum.splits)
  obtain ys err w1 where d: "deep_dive_try provider req w = (ys, err, w1)"
    by (cases "deep_dive_try provider req w") auto
  with t have ys: "\<forall>e \<in> set ys. sources e = []" by simp
  show ?thesis
  proof (cases err)
    case None
    with assms r d have "yielded run = ys"
      by (auto simp: getDeepDiveResponseStream_def)
    with ys show ?thesis by simp
  next
    case (Some a)
    with assms r d have "yielded run = ys @ [deep_dive_placeholder]"
      by (auto simp: getDeepDiveResponseStream_def)
    with ys show ?thesis by (simp add: deep_dive_placeholder_def)
  qed
qed

theorem deep_dive_no_sources_witness:
  "\<exists>run w'. getDeepDiveResponseStream flaky_provider ''Be kind.'' ''Summarise'' (Some report_pdf)
               stored_key_world = Some (run, w') \<and>
             length (yielded run) = 3 \<and>
             list_all (\<lambda>e. sources e = []) (yielded run)"
proof -
  have f: "\<forall>request. flaky_provider request
             = Inr (throws_after [plain_chunk, cited_chunk] connection_reset)"
    by (simp add: flaky_provider_def)
  have r: "read_completes (Some report_pdf)"
    by (simp add: read_completes_def report_pdf_def)
  from deep_dive_run_throws_after [OF stored_key_client f r, of "''Be kind.''" "''Summarise''"]
  obtain run w' where s:
    "getDeepDiveResponseStream flaky_provider ''Be kind.'' ''Summarise'' (Some report_pdf)
       stored_key_world = Some (run, w')"
    and y: "yielded run = map deep_dive_element [plain_chunk, cited_chunk] @ [deep_dive_placeholder]"
    by auto
  from deep_dive_no_sources [OF s] have "list_all (\<lambda>e. sources e = []) (yielded run)"
    by (simp add: list_all_iff)
  with s y show ?thesis by simp
qed

text \<open>
  C10: for a call of the deep-dive flow with an empty message and no file, the request
  has a single user turn with exactly one part, a text part with the fixed default
  prompt.
\<close>

theorem deep_dive_default_prompt_without_file:
  "map_option contents (deepDiveRequest SYSTEM_PROMPT [] None) =
     Some [\<lparr>role = ''user'',
            parts = [TextPart ''Please provide a summary of the attached document.'']\<rparr>]"
  by (simp add: deepDiveRequest_def deepDiveUserParts_def js_or_str_def default_prompt_def)

section \<open>The history adapter and the caller's array\<close>

text \<open>
  C9: for every store and every array in it, \<open>buildGeminiHistory\<close> called on that array
  returns what the function on values returns and leaves the array as it was, with the
  same elements in the same order; every other array that existed before the call is
  unchanged as well. Only the copy is shifted.
\<close>

theorem buildGeminiHistory_store_frame:
  assumes "messages < length st"
  shows "\<exists>result st'. buildGeminiHistory_store st messages = Some (result, st') \<and>
           result = buildGeminiHistory (st ! messages) \<and>
           st' ! messages = st ! messages \<and>
           take (length st) st' = st"
  using assms
  by (simp add: buildGeminiHistory_store_def buildGeminiHistory_def Let_def nth_append)

theorem buildGeminiHistory_store_frame_witness:
  "(0::nat) < length [greeting_then_question] \<and>
   buildGeminiHistory_store [greeting_then_question] 0 =
     Some ([\<lparr>role = ''user'', parts = [TextPart ''Hi'']\<rparr>],
           [greeting_then_question, [\<lparr>author = USER, content = ''Hi''\<rparr>]])"
  using buildGeminiHistory_store_frame [of 0 "[greeting_then_question]"]
  by (simp add: buildGeminiHistory_store_def greeting_then_question_def shift_def toContent_def)

end
